theory Spec2Isabelle
  imports Main "HOL-Library.Sublist"
begin

unbundle bit_operations_syntax

section \<open>Common vocabulary\<close>

text \<open>
  A Python exception is carried as a value; \<open>str_of\<close> is what \<^verbatim>\<open>print(err)\<close> shows.
  The values stand for instances of \<^verbatim>\<open>Exception\<close>, the class that the handlers of the
  sources name; an interrupt (\<^verbatim>\<open>KeyboardInterrupt\<close>), which those handlers let through,
  is not among them.
  Every call into a module that is outside the verified sources (the exchange endpoints,
  the filesystem helpers, the transport objects) has an \<open>outcome\<close>: it returns a
  value or it raises.
\<close>

datatype exn = Exception string

fun str_of :: "exn \<Rightarrow> string" where
  "str_of (Exception m) = m"

datatype 'a outcome = Returns 'a | Raises exn

section \<open>Device side: \<^verbatim>\<open>modules/lib/shell/shell.py\<close>\<close>

subsection \<open>Observable effects and the environment\<close>

text \<open>
  The effects of the shell commands, in program order. \<open>StdoutWrite\<close> is a raw write on
  \<^verbatim>\<open>sys.stdout\<close> or \<^verbatim>\<open>sys.stdout.buffer\<close>, \<open>Print\<close> the builtin \<^verbatim>\<open>print(message)\<close>,
  \<open>PrintEnd\<close> the builtin with an explicit \<^verbatim>\<open>end\<close>, \<open>RedirectWrite\<close> a write on the
  redirection file, \<open>Getch d\<close> a call \<^verbatim>\<open>terminal.getch(duration=d)\<close>. The three
  exchange events are the calls \<^verbatim>\<open>UploadCommand(cwd).write(file, recursive, ...)\<close>,
  \<^verbatim>\<open>FileReader().read(cwd, ...)\<close> and \<^verbatim>\<open>FileWriter().write(path, ...)\<close>.
\<close>

datatype dev_event =
    StdoutWrite string
  | Print string
  | PrintEnd string string
  | RedirectWrite string
  | Getch nat
  | UploadCommandWrite string string bool
  | FileReaderRead string
  | FileWriterWrite string
  | WatchdogFeed
  | Syslog exn

type_synonym trace = "dev_event list"

text \<open>
  What the commands read from their surroundings. \<open>stdout_redirected\<close> is the module's
  global (\<open>None\<close>, or the file that output is redirected to). The answers of the peer and
  of the filesystem may depend on everything that happened before, so each of them takes
  the trace so far. \<open>log_writable\<close> tells whether \<^verbatim>\<open>syslog.log\<close> can be opened and
  written at that moment.
\<close>

record device =
  stdout_redirected :: "string option"
  getch :: "trace \<Rightarrow> nat \<Rightarrow> string"
  getcwd :: string
  command_write :: "trace \<Rightarrow> string \<Rightarrow> string \<Rightarrow> bool \<Rightarrow> unit outcome"
  reader_read :: "trace \<Rightarrow> string \<Rightarrow> bool outcome"
  writer_write :: "trace \<Rightarrow> string \<Rightarrow> bool outcome"
  fs_fileinfo :: "trace \<Rightarrow> string \<Rightarrow> int outcome"
  fs_exists :: "trace \<Rightarrow> string \<Rightarrow> bool"
  fs_normpath :: "string \<Rightarrow> string outcome"
  fs_abspath :: "string \<Rightarrow> string \<Rightarrow> string outcome"
  fs_isfile :: "trace \<Rightarrow> string \<Rightarrow> bool outcome"
  fs_isdir :: "trace \<Rightarrow> string \<Rightarrow> bool outcome"
  fs_split :: "string \<Rightarrow> (string \<times> string) outcome"
  fs_entries :: "trace \<Rightarrow> string \<Rightarrow> string \<Rightarrow> bool \<Rightarrow> string list outcome"
  log_writable :: "trace \<Rightarrow> bool"

subsection \<open>\<^verbatim>\<open>print_\<close> and the capability handshake\<close>

definition newline :: string where
  "newline = [CHR 0x0A]"

text \<open>\<^verbatim>\<open>print_(message, end=None)\<close>, here \<open>shell_print\<close>: the events it appends.\<close>

definition shell_print :: "device \<Rightarrow> string \<Rightarrow> string option \<Rightarrow> trace" where
  "shell_print env message end =
     (case stdout_redirected env of
        None \<Rightarrow> (case end of None \<Rightarrow> [Print message] | Some e \<Rightarrow> [PrintEnd message e])
      | Some f \<Rightarrow>
          (case end of
             None \<Rightarrow> [RedirectWrite message, RedirectWrite newline]
           | Some e \<Rightarrow> [RedirectWrite message, RedirectWrite e]))"

text \<open>The query \<^verbatim>\<open>b"\x1B[0c"\<close> and the answer \<^verbatim>\<open>"\x1B[?3;2c"\<close> of CamFlasher.\<close>

definition device_attribute_request :: string where
  "device_attribute_request = CHR 0x1B # ''[0c''"

definition camflasher_response :: string where
  "camflasher_response = CHR 0x1B # ''[?3;2c''"

definition check_cam_flasher :: "device \<Rightarrow> trace \<Rightarrow> bool \<times> trace" where
  "check_cam_flasher env tr =
     (if stdout_redirected env = None then
        (let tr1 = tr @ [StdoutWrite device_attribute_request];
             response = getch env tr1 1000;
             tr2 = tr1 @ [Getch 1000]
         in if response = camflasher_response then (True, tr2) else (False, tr2))
      else (False, tr))"

text \<open>
  \<^verbatim>\<open>logger.syslog(err, display=False)\<close> of \<^verbatim>\<open>tools/logger.py\<close>: nothing is displayed,
  and \<^verbatim>\<open>log\<close> appends the entry to \<^verbatim>\<open>syslog.log\<close>; when that raises, its bare
  \<^verbatim>\<open>except\<close> prints \<^verbatim>\<open>No space\<close> with the builtin \<^verbatim>\<open>print\<close> and no entry is written.
\<close>

definition syslog :: "device \<Rightarrow> exn \<Rightarrow> trace \<Rightarrow> trace" where
  "syslog env err tr = (if log_writable env tr then [Syslog err] else [Print ''No space''])"

subsection \<open>\<^verbatim>\<open>upload\<close>\<close>

text \<open>
  The loop \<^verbatim>\<open>while result: result = file_reader.read(...); watchdog.WatchDog.feed()\<close>.
  It runs for as long as the peer keeps announcing files, so it is a partial function:
  \<open>None\<close> is a loop that never ends. The first component of the result is the exception
  that left the loop, if any.
\<close>

partial_function (option)
  upload_loop :: "device \<Rightarrow> bool \<Rightarrow> trace \<Rightarrow> (exn option \<times> trace) option"
where
  "upload_loop env result tr =
     (if result then
        (case reader_read env tr (getcwd env) of
           Raises e \<Rightarrow> Some (Some e, tr @ [FileReaderRead (getcwd env)])
         | Returns r \<Rightarrow>
             upload_loop env r (tr @ [FileReaderRead (getcwd env), WatchdogFeed]))
      else Some (None, tr))"

declare upload_loop.simps [code]

text \<open>The body of the \<^verbatim>\<open>try\<close> block of \<^verbatim>\<open>upload\<close>.\<close>

definition upload_try :: "device \<Rightarrow> string \<Rightarrow> bool \<Rightarrow> trace \<Rightarrow> (exn option \<times> trace) option" where
  "upload_try env file recursive tr =
     (let tr1 = tr @ [UploadCommandWrite (getcwd env) file recursive]
      in case command_write env tr (getcwd env) file recursive of
           Raises e \<Rightarrow> Some (Some e, tr1)
         | Returns u \<Rightarrow>
             (case upload_loop env True tr1 of
                None \<Rightarrow> None
              | Some (Some e, tr2) \<Rightarrow> Some (Some e, tr2)
              | Some (None, tr2) \<Rightarrow> Some (None, tr2 @ shell_print env ''Upload end'' None)))"

definition upload :: "device \<Rightarrow> string \<Rightarrow> bool \<Rightarrow> trace option" where
  "upload env file recursive =
     (case check_cam_flasher env [] of
        (True, tr0) \<Rightarrow>
          (case upload_try env file recursive (tr0 @ shell_print env ''Upload to device start'' None) of
             None \<Rightarrow> None
           | Some (Some err, tr1) \<Rightarrow>
               Some (tr1 @ syslog env err tr1 @ shell_print env ''Upload failed'' None)
           | Some (None, tr1) \<Rightarrow> Some tr1)
      | (False, tr0) \<Rightarrow>
          Some (tr0 @ shell_print env ''CamFlasher application required for this command'' None))"

subsection \<open>\<^verbatim>\<open>Exporter\<close>, \<^verbatim>\<open>searchfile\<close> and \<^verbatim>\<open>download\<close>\<close>

text \<open>The start-of-file marker: U+0FCA encoded in UTF-8.\<close>

definition file_marker :: string where
  "file_marker = [CHR 0xE0, CHR 0xBF, CHR 0x8A]"

text \<open>
  \<^verbatim>\<open>Exporter.send_file\<close>. Python reads \<^verbatim>\<open>fileinfo[0] & 0x4000 != 0x4000\<close> as
  \<^verbatim>\<open>(fileinfo[0] & 0x4000) != 0x4000\<close>.
\<close>

definition send_file :: "device \<Rightarrow> string \<Rightarrow> trace \<Rightarrow> bool outcome \<times> trace" where
  "send_file env path tr =
     (case fs_fileinfo env tr path of
        Raises e \<Rightarrow> (Raises e, tr)
      | Returns mode \<Rightarrow>
          if mode AND 0x4000 \<noteq> 0x4000 then
            (if fs_exists env tr path then
               (let tr1 = tr @ [StdoutWrite file_marker]
                in case writer_write env tr1 path of
                     Raises e \<Rightarrow> (Raises e, tr1 @ [FileWriterWrite path])
                   | Returns r \<Rightarrow> (Returns r, tr1 @ [FileWriterWrite path, WatchdogFeed]))
             else (Returns True, tr))
          else (Returns True, tr))"

text \<open>\<^verbatim>\<open>Exporter.show\<close>: \<^verbatim>\<open>for _ in range(3)\<close>, left by \<^verbatim>\<open>break\<close> on success.\<close>

fun show_loop :: "device \<Rightarrow> nat \<Rightarrow> string \<Rightarrow> trace \<Rightarrow> exn option \<times> trace" where
  "show_loop env 0 path tr = (None, tr)"
| "show_loop env (Suc n) path tr =
     (case send_file env path tr of
        (Raises e, tr1) \<Rightarrow> (Some e, tr1)
      | (Returns r, tr1) \<Rightarrow> if r then (None, tr1) else show_loop env n path tr1)"

definition "show" :: "device \<Rightarrow> string \<Rightarrow> trace \<Rightarrow> exn option \<times> trace" where
  "show env path tr = show_loop env 3 path tr"

text \<open>
  Modelled from the spec: \<^verbatim>\<open>filesystem.scandir(path, pattern, recursive, obj)\<close>, which is
  not among the sources. The sender role enumerates the matching entries in a stable
  order and handles them one by one; here the enumeration is \<open>fs_entries\<close> and each
  entry is handed to \<^verbatim>\<open>obj.show\<close>. An exception of \<^verbatim>\<open>show\<close> leaves the enumeration.
\<close>

fun show_all :: "device \<Rightarrow> string list \<Rightarrow> trace \<Rightarrow> exn option \<times> trace" where
  "show_all env [] tr = (None, tr)"
| "show_all env (p # ps) tr =
     (case show env p tr of
        (Some e, tr1) \<Rightarrow> (Some e, tr1)
      | (None, tr1) \<Rightarrow> show_all env ps tr1)"

definition scandir :: "device \<Rightarrow> string \<Rightarrow> string \<Rightarrow> bool \<Rightarrow> trace \<Rightarrow> string list outcome \<times> trace" where
  "scandir env path pattern recursive tr =
     (case fs_entries env tr path pattern recursive of
        Raises e \<Rightarrow> (Raises e, tr)
      | Returns filenames \<Rightarrow>
          (case show_all env filenames tr of
             (Some e, tr1) \<Rightarrow> (Raises e, tr1)
           | (None, tr1) \<Rightarrow> (Returns filenames, tr1)))"

text \<open>
  The \<^verbatim>\<open>try\<close> block of \<^verbatim>\<open>searchfile(file, recursive, obj)\<close> with \<^verbatim>\<open>obj\<close> an
  \<^verbatim>\<open>Exporter\<close> (whose \<^verbatim>\<open>show_dir\<close> does nothing); \<open>file\<close> is already normalised and
  \<open>p\<close> is its absolute path.
\<close>

definition searchfile_try :: "device \<Rightarrow> string \<Rightarrow> string \<Rightarrow> bool \<Rightarrow> trace \<Rightarrow> string list outcome \<times> trace" where
  "searchfile_try env file p recursive tr =
     (if file = [] then scandir env (getcwd env) ''*'' recursive tr
      else
        (case fs_isfile env tr p of
           Raises e \<Rightarrow> (Raises e, tr)
         | Returns True \<Rightarrow>
             (case show env p tr of
                (Some e, tr1) \<Rightarrow> (Raises e, tr1)
              | (None, tr1) \<Rightarrow> (Returns [p], tr1))
         | Returns False \<Rightarrow>
             (case fs_isdir env tr p of
                Raises e \<Rightarrow> (Raises e, tr)
              | Returns True \<Rightarrow> scandir env p ''*'' recursive tr
              | Returns False \<Rightarrow>
                  (case fs_split env p of
                     Raises e \<Rightarrow> (Raises e, tr)
                   | Returns (path, pattern) \<Rightarrow> scandir env path pattern recursive tr))))"

text \<open>
  The end of \<^verbatim>\<open>searchfile\<close>, after its \<^verbatim>\<open>try\<close> statement. In the handler,
  \<^verbatim>\<open>print_(err)\<close> passes the exception object itself: the builtin \<^verbatim>\<open>print\<close> shows its
  text, while with redirected output \<^verbatim>\<open>stdout_redirected.write(err)\<close> raises a
  \<^verbatim>\<open>TypeError\<close>, which leaves \<^verbatim>\<open>searchfile\<close>.
\<close>

definition searchfile_end :: "device \<Rightarrow> string \<Rightarrow> string list \<Rightarrow> trace \<Rightarrow> string list outcome \<times> trace" where
  "searchfile_end env file filenames tr =
     (if length filenames = 0 \<and> file \<noteq> [] \<and> file \<noteq> ''.'' then
        (Returns filenames, tr @ shell_print env (file @ '' : No such file or directory'') None)
      else (Returns filenames, tr))"

definition searchfile :: "device \<Rightarrow> string \<Rightarrow> bool \<Rightarrow> trace \<Rightarrow> string list outcome \<times> trace" where
  "searchfile env file0 recursive tr =
     (case fs_normpath env file0 of
        Raises e \<Rightarrow> (Raises e, tr)
      | Returns file \<Rightarrow>
          (case fs_abspath env (getcwd env) file of
             Raises e \<Rightarrow> (Raises e, tr)
           | Returns p \<Rightarrow>
               (case searchfile_try env file p recursive tr of
                  (Raises err, tr1) \<Rightarrow>
                    if stdout_redirected env = None then
                      searchfile_end env file [] (tr1 @ shell_print env (str_of err) None)
                    else (Raises (Exception ''TypeError''), tr1)
                | (Returns filenames, tr1) \<Rightarrow> searchfile_end env file filenames tr1)))"

definition download :: "device \<Rightarrow> string \<Rightarrow> bool \<Rightarrow> trace" where
  "download env file recursive =
     (case check_cam_flasher env [] of
        (True, tr0) \<Rightarrow>
          (case searchfile env file recursive (tr0 @ shell_print env ''Download from device start'' None) of
             (Raises err, tr1) \<Rightarrow>
               tr1 @ syslog env err tr1 @ shell_print env ''Download failed'' None
           | (Returns fs, tr1) \<Rightarrow> tr1 @ shell_print env ''Download end'' None)
      | (False, tr0) \<Rightarrow>
          tr0 @ shell_print env ''CamFlasher application required for this command'' None)"

text \<open>The events that belong to a transfer session.\<close>

fun session_event :: "dev_event \<Rightarrow> bool" where
  "session_event (UploadCommandWrite c f r) = True"
| "session_event (FileReaderRead c) = True"
| "session_event (FileWriterWrite p) = True"
| "session_event (StdoutWrite s) = (s = file_marker)"
| "session_event ev = False"

section \<open>Host side: \<^verbatim>\<open>tools/camflasher/streamdevice.py\<close>\<close>

subsection \<open>The thread's data, its commands and its effects\<close>

datatype stream_class = StreamSerial | StreamTelnet

datatype conn_state = DISCONNECTED | CONNECTING_TELNET | TELNET_CONNECTED | SERIAL_CONNECTED

datatype port_id = PortName string | PortNumber int

text \<open>
  A queued command is the pair of a command code and its data; the senders of the class
  (\<^verbatim>\<open>connect_serial\<close>, \<^verbatim>\<open>write\<close>, \<^verbatim>\<open>upload_file\<close>, \<^verbatim>\<open>quit\<close>, ...) build exactly these.
\<close>

datatype command =
    CMD_CONNECT_SERIAL string bool
  | CMD_CONNECT_TELNET string int
  | CMD_DISCONNECT
  | CMD_WRITE_DATA string
  | CMD_UPLOAD_FILE string
  | CMD_DONWLOAD_FILE string
  | CMD_UPLOAD_PROMPT_FILE string
  | CMD_QUIT

text \<open>
  The effects of the thread, in program order: \<open>Callback\<close> is \<^verbatim>\<open>receive_callback\<close> (what
  goes upstream to the console), the others are calls on the transport, on the exchange
  endpoints and \<^verbatim>\<open>time.sleep\<close> (in milliseconds).
\<close>

datatype host_event =
    Callback string
  | SerialOpen string
  | SerialLines bool
  | TelnetCreate string int
  | StreamClose
  | StreamWrite string
  | StreamRead nat
  | InWaiting
  | IsOpened
  | Sleep nat
  | CommandRead string
  | WriterWrite string string
  | ReaderRead string
  | UploadPrompt string

type_synonym hist = "host_event list"

record stream_thread =
  stream :: "stream_class option"
  state :: conn_state
  loop :: bool
  port :: port_id
  host :: string
  command :: "command list"
  current :: nat
  hist :: hist

text \<open>
  The answers of the transport, of the exchange endpoints and of the local filesystem,
  each depending on the history so far. \<open>h_serial_setup\<close> stands for the assignments of
  \<^verbatim>\<open>dtr\<close> and \<^verbatim>\<open>rts\<close> and for \<^verbatim>\<open>reset_input_buffer\<close>; \<open>h_telnet_open\<close> tells
  whether \<^verbatim>\<open>telnet.open\<close> succeeds inside \<^verbatim>\<open>StreamTelnet.is_opened\<close>. The functions
  of \<^verbatim>\<open>os.path\<close> on strings do not raise.
\<close>

record host_env =
  h_serial_open :: "hist \<Rightarrow> string \<Rightarrow> unit outcome"
  h_serial_setup :: "hist \<Rightarrow> bool \<Rightarrow> unit outcome"
  h_telnet_create :: "hist \<Rightarrow> string \<Rightarrow> int \<Rightarrow> unit outcome"
  h_telnet_open :: "hist \<Rightarrow> bool"
  h_stream_write :: "hist \<Rightarrow> string \<Rightarrow> unit outcome"
  h_stream_read :: "hist \<Rightarrow> nat \<Rightarrow> string outcome"
  h_get_in_waiting :: "hist \<Rightarrow> nat outcome"
  h_command_read :: "hist \<Rightarrow> string \<Rightarrow> (string \<times> string \<times> bool) outcome"
  h_writer_write :: "hist \<Rightarrow> string \<Rightarrow> string \<Rightarrow> unit outcome"
  h_reader_read :: "hist \<Rightarrow> string \<Rightarrow> unit outcome"
  h_upload_prompt :: "hist \<Rightarrow> string \<Rightarrow> unit outcome"
  h_isdir :: "hist \<Rightarrow> string \<Rightarrow> bool outcome"
  h_scandir :: "hist \<Rightarrow> string \<Rightarrow> string \<Rightarrow> bool \<Rightarrow> string list outcome"
  os_path_normpath :: "string \<Rightarrow> string"
  os_path_split :: "string \<Rightarrow> string \<times> string"
  os_path_exists :: "hist \<Rightarrow> string \<Rightarrow> bool"

subsection \<open>Strings\<close>

text \<open>\<^verbatim>\<open>s.find(sub)\<close>: the lowest index where \<open>sub\<close> occurs in \<open>s\<close>, or \<open>-1\<close>.\<close>

fun find_from :: "string \<Rightarrow> string \<Rightarrow> int \<Rightarrow> int" where
  "find_from [] sub i = (if sub = [] then i else - 1)"
| "find_from (c # s) sub i = (if prefix sub (c # s) then i else find_from s sub (i + 1))"

definition str_find :: "string \<Rightarrow> string \<Rightarrow> int" where
  "str_find s sub = find_from s sub 0"

text \<open>\<^verbatim>\<open>filename.replace("\\","/")\<close>.\<close>

definition replace_backslash :: "string \<Rightarrow> string" where
  "replace_backslash filename = map (\<lambda>c. if c = CHR 0x5C then CHR ''/'' else c) filename"

text \<open>\<^verbatim>\<open>"%d" % n\<close> for an integer.\<close>

fun dec_nat :: "nat \<Rightarrow> string" where
  "dec_nat n = (if n < 10 then [char_of (48 + n)] else dec_nat (n div 10) @ [char_of (48 + n mod 10)])"

definition dec_int :: "int \<Rightarrow> string" where
  "dec_int i = (if i < 0 then CHR ''-'' # dec_nat (nat (- i)) else dec_nat (nat i))"

definition esc :: string where
  "esc = [CHR 0x1B]"

text \<open>The termination command \<^verbatim>\<open>b"exit\r\n"\<close>.\<close>

definition exit_command :: string where
  "exit_command = ''exit'' @ [CHR 0x0D, CHR 0x0A]"

subsection \<open>Closing, printing and the connect commands\<close>

definition log :: "stream_thread \<Rightarrow> hist \<Rightarrow> stream_thread" where
  "log t evs = t\<lparr>hist := hist t @ evs\<rparr>"

definition close :: "stream_thread \<Rightarrow> stream_thread" where
  "close t =
     (if stream t \<noteq> None then (log t [StreamClose])\<lparr>state := DISCONNECTED, stream := None\<rparr>
      else t)"

text \<open>\<^verbatim>\<open>print(message, end="\n")\<close>: \<^verbatim>\<open>receive_callback(message + end)\<close>.\<close>

definition print :: "stream_thread \<Rightarrow> string \<Rightarrow> string \<Rightarrow> stream_thread" where
  "print t message end = log t [Callback (message @ end)]"

definition connect_serial_message :: "string \<Rightarrow> string" where
  "connect_serial_message p = newline @ esc @ ''[42;93mConnect serial link '' @ p @ esc @ ''[m''"

definition connect_telnet_message :: "string \<Rightarrow> int \<Rightarrow> string" where
  "connect_telnet_message h p =
     newline @ esc @ ''[42;93mConnect telnet on '' @ h @ '':'' @ dec_int p @ esc @ ''[m''"

definition on_connect_serial :: "host_env \<Rightarrow> stream_thread \<Rightarrow> command \<Rightarrow> stream_thread" where
  "on_connect_serial env t cmd =
     (case cmd of
        CMD_CONNECT_SERIAL p rts_dtr \<Rightarrow>
          (let t1 = close t in
           if p \<noteq> [] then
             (case h_serial_open env (hist t1) p of
                Raises err \<Rightarrow> close (log t1 [SerialOpen p])
              | Returns u \<Rightarrow>
                  (let t2 = (log t1 [SerialOpen p])\<lparr>stream := Some StreamSerial\<rparr>
                   in case h_serial_setup env (hist t2) rts_dtr of
                        Raises err \<Rightarrow> close (log t2 [SerialLines rts_dtr])
                      | Returns u \<Rightarrow>
                          print ((log t2 [SerialLines rts_dtr])\<lparr>port := PortName p\<rparr>)
                            (connect_serial_message p) newline))
           else t1)
      | _ \<Rightarrow> t)"

definition on_connect_telnet :: "host_env \<Rightarrow> stream_thread \<Rightarrow> command \<Rightarrow> stream_thread" where
  "on_connect_telnet env t cmd =
     (case cmd of
        CMD_CONNECT_TELNET h p \<Rightarrow>
          (let t1 = close t in
           if h \<noteq> [] then
             (case h_telnet_create env (hist t1) h p of
                Raises err \<Rightarrow> close (log t1 [TelnetCreate h p])
              | Returns u \<Rightarrow>
                  print ((log t1 [TelnetCreate h p])
                           \<lparr>stream := Some StreamTelnet, port := PortNumber p, host := h\<rparr>)
                    (connect_telnet_message h p) newline)
           else t1)
      | _ \<Rightarrow> t)"

definition on_connect :: "host_env \<Rightarrow> stream_thread \<Rightarrow> command \<Rightarrow> stream_thread" where
  "on_connect env t cmd = on_connect_telnet env (on_connect_serial env t cmd) cmd"

definition on_quit :: "stream_thread \<Rightarrow> command \<Rightarrow> stream_thread" where
  "on_quit t cmd = (if cmd = CMD_QUIT then close (t\<lparr>loop := False\<rparr>) else t)"

definition disconnected_message :: string where
  "disconnected_message = newline @ esc @ ''[42;93mDisconnected'' @ esc @ ''[m''"

definition on_disconnect :: "stream_thread \<Rightarrow> command \<Rightarrow> stream_thread" where
  "on_disconnect t cmd =
     (if cmd = CMD_DISCONNECT then
        close (if state t \<in> {TELNET_CONNECTED, CONNECTING_TELNET}
               then print t disconnected_message newline else t)
      else t)"

subsection \<open>Upload and download sessions\<close>

text \<open>
  The loop \<^verbatim>\<open>for filename in filenames\<close> of \<^verbatim>\<open>on_upload_file\<close>. The functions of a
  \<^verbatim>\<open>try\<close> block thread the history only and return the exception that left the
  block, if any.
\<close>

fun write_files :: "host_env \<Rightarrow> string list \<Rightarrow> string \<Rightarrow> hist \<Rightarrow> exn option \<times> hist" where
  "write_files env [] directory h = (None, h)"
| "write_files env (f # fs) directory h =
     (let filename = replace_backslash f
      in case h_writer_write env h filename directory of
           Raises err \<Rightarrow> (Some err, h @ [WriterWrite filename directory])
         | Returns u \<Rightarrow> write_files env fs directory (h @ [WriterWrite filename directory]))"

definition not_found_message :: "string \<Rightarrow> string" where
  "not_found_message p = [CHR 0x27] @ p @ [CHR 0x27] @ '' not found''"

text \<open>
  \<^verbatim>\<open>self.stream.write(data)\<close>: on a missing stream (\<^verbatim>\<open>None\<close>) the attribute access raises.
\<close>

definition stream_write :: "host_env \<Rightarrow> stream_class option \<Rightarrow> hist \<Rightarrow> string \<Rightarrow> exn option \<times> hist" where
  "stream_write env strm h data =
     (if strm = None then (Some (Exception ''AttributeError''), h)
      else
        (case h_stream_write env h data of
           Raises err \<Rightarrow> (Some err, h @ [StreamWrite data])
         | Returns u \<Rightarrow> (None, h @ [StreamWrite data])))"

definition on_upload_file_try :: "host_env \<Rightarrow> stream_class option \<Rightarrow> hist \<Rightarrow> string \<Rightarrow> exn option \<times> hist" where
  "on_upload_file_try env strm h directory =
     (case h_command_read env h directory of
        Raises err \<Rightarrow> (Some err, h @ [CommandRead directory])
      | Returns (path, pattern, recursive) \<Rightarrow>
          (let h1 = h @ [CommandRead directory];
               target_dir0 = os_path_normpath env (directory @ ''/'' @ path @ ''/'' @ pattern)
           in case h_isdir env h1 target_dir0 of
                Raises err \<Rightarrow> (Some err, h1)
              | Returns d \<Rightarrow>
                  (let target_dir = (if d then target_dir0 @ ''/*'' else target_dir0);
                       (directory', pattern') = os_path_split env target_dir
                   in case
                        (if str_find directory' (os_path_normpath env directory) = 0
                            \<and> os_path_exists env h1 directory'
                         then
                           (case h_scandir env h1 directory' pattern' recursive of
                              Raises err \<Rightarrow> (Some err, h1)
                            | Returns filenames \<Rightarrow> write_files env filenames directory h1)
                         else
                           (None, h1 @ [Callback (not_found_message
                                          (os_path_normpath env (path @ ''/'' @ pattern)) @ newline)]))
                      of
                        (Some err, h2) \<Rightarrow> (Some err, h2)
                      | (None, h2) \<Rightarrow> stream_write env strm h2 exit_command)))"

definition on_upload_file :: "host_env \<Rightarrow> stream_thread \<Rightarrow> command \<Rightarrow> stream_thread" where
  "on_upload_file env t cmd =
     (case cmd of
        CMD_UPLOAD_FILE directory \<Rightarrow>
          (case on_upload_file_try env (stream t) (hist t) directory of
             (Some err, h) \<Rightarrow> print (t\<lparr>hist := h\<rparr>) ''Upload error'' newline
           | (None, h) \<Rightarrow> t\<lparr>hist := h\<rparr>)
      | _ \<Rightarrow> t)"

definition on_download_file :: "host_env \<Rightarrow> stream_thread \<Rightarrow> command \<Rightarrow> stream_thread" where
  "on_download_file env t cmd =
     (case cmd of
        CMD_DONWLOAD_FILE directory \<Rightarrow>
          (case h_reader_read env (hist t) directory of
             Raises err \<Rightarrow> print (log t [ReaderRead directory]) ''Download error'' newline
           | Returns u \<Rightarrow> log t [ReaderRead directory])
      | _ \<Rightarrow> t)"

text \<open>\<^verbatim>\<open>on_upload_prompt\<close> has no handler: an exception of the uploader leaves \<^verbatim>\<open>run\<close>.\<close>

definition on_upload_prompt :: "host_env \<Rightarrow> stream_thread \<Rightarrow> command \<Rightarrow> exn option \<times> stream_thread" where
  "on_upload_prompt env t cmd =
     (case cmd of
        CMD_UPLOAD_PROMPT_FILE filename \<Rightarrow>
          (case h_upload_prompt env (hist t) filename of
             Raises err \<Rightarrow> (Some err, log t [UploadPrompt filename])
           | Returns u \<Rightarrow> (None, log t [UploadPrompt filename]))
      | _ \<Rightarrow> (None, t))"

subsection \<open>\<^verbatim>\<open>on_write\<close>\<close>

text \<open>
  \<^verbatim>\<open>for i in range(15): time.sleep(0.01); if self.stream.get_in_waiting() > 0: break\<close>
\<close>

fun wait_input :: "host_env \<Rightarrow> nat \<Rightarrow> hist \<Rightarrow> exn option \<times> hist" where
  "wait_input env 0 h = (None, h)"
| "wait_input env (Suc n) h =
     (case h_get_in_waiting env (h @ [Sleep 10]) of
        Raises err \<Rightarrow> (Some err, h @ [Sleep 10, InWaiting])
      | Returns k \<Rightarrow>
          if k > 0 then (None, h @ [Sleep 10, InWaiting])
          else wait_input env n (h @ [Sleep 10, InWaiting]))"

text \<open>
  \<^verbatim>\<open>while self.stream.get_in_waiting() > 0\<close>: forwards what the device answers. A device
  that never stops sending keeps the loop running, hence a partial function.
\<close>

partial_function (option) drain :: "host_env \<Rightarrow> hist \<Rightarrow> (exn option \<times> hist) option" where
  "drain env h =
     (case h_get_in_waiting env h of
        Raises err \<Rightarrow> Some (Some err, h @ [InWaiting])
      | Returns k \<Rightarrow>
          if k > 0 then
            (case h_get_in_waiting env (h @ [InWaiting]) of
               Raises err \<Rightarrow> Some (Some err, h @ [InWaiting, InWaiting])
             | Returns n \<Rightarrow>
                 (case h_stream_read env (h @ [InWaiting, InWaiting]) n of
                    Raises err \<Rightarrow> Some (Some err, h @ [InWaiting, InWaiting, StreamRead n])
                  | Returns data \<Rightarrow>
                      (case h_get_in_waiting env
                              (h @ [InWaiting, InWaiting, StreamRead n, Callback data]) of
                         Raises err \<Rightarrow>
                           Some (Some err,
                                 h @ [InWaiting, InWaiting, StreamRead n, Callback data, InWaiting])
                       | Returns z \<Rightarrow>
                           if z = 0 then
                             (case wait_input env 15
                                     (h @ [InWaiting, InWaiting, StreamRead n, Callback data,
                                           InWaiting]) of
                                (Some err, h4) \<Rightarrow> Some (Some err, h4)
                              | (None, h4) \<Rightarrow> drain env h4)
                           else
                             drain env
                               (h @ [InWaiting, InWaiting, StreamRead n, Callback data,
                                     InWaiting]))))
          else Some (None, h @ [InWaiting]))"

declare drain.simps [code]

text \<open>\<^verbatim>\<open>while len(data) > 0\<close>: the data goes out in slices of 8 bytes.\<close>

function send_chunks :: "host_env \<Rightarrow> string \<Rightarrow> hist \<Rightarrow> (exn option \<times> hist) option" where
  "send_chunks env data h =
     (if length data > 0 then
        (case h_stream_write env h (take 8 data) of
           Raises err \<Rightarrow> Some (Some err, h @ [StreamWrite (take 8 data)])
         | Returns u \<Rightarrow>
             if length (drop 8 data) > 0 then
               (case wait_input env 15 (h @ [StreamWrite (take 8 data)]) of
                  (Some err, h2) \<Rightarrow> Some (Some err, h2)
                | (None, h2) \<Rightarrow>
                    (case drain env h2 of
                       None \<Rightarrow> None
                     | Some (Some err, h3) \<Rightarrow> Some (Some err, h3)
                     | Some (None, h3) \<Rightarrow> send_chunks env (drop 8 data) h3))
             else send_chunks env (drop 8 data) (h @ [StreamWrite (take 8 data)]))
      else Some (None, h))"
  by pat_completeness auto
termination
  by (relation "measure (\<lambda>(env, data, h). length data)") auto

definition on_write_try :: "host_env \<Rightarrow> hist \<Rightarrow> string \<Rightarrow> (exn option \<times> hist) option" where
  "on_write_try env h data =
     (if length data > 32 then send_chunks env data h
      else
        (case h_stream_write env h data of
           Raises err \<Rightarrow> Some (Some err, h @ [StreamWrite data])
         | Returns u \<Rightarrow> Some (None, h @ [StreamWrite data])))"

definition on_write :: "host_env \<Rightarrow> stream_thread \<Rightarrow> command \<Rightarrow> stream_thread option" where
  "on_write env t cmd =
     (case cmd of
        CMD_WRITE_DATA data \<Rightarrow>
          if stream t \<noteq> None then
            (case on_write_try env (hist t) data of
               None \<Rightarrow> None
             | Some (Some err, h) \<Rightarrow> Some (close (t\<lparr>hist := h\<rparr>))
             | Some (None, h) \<Rightarrow> Some (t\<lparr>hist := h\<rparr>))
          else Some t
      | _ \<Rightarrow> Some t)"

subsection \<open>\<^verbatim>\<open>receive\<close> and \<^verbatim>\<open>run\<close>\<close>

definition connection_lost_message :: string where
  "connection_lost_message = newline @ esc @ ''[93;101mConnection lost'' @ esc @ ''[m''"

text \<open>\<^verbatim>\<open>self.stream.read(self.stream.get_in_waiting() or 1)\<close>\<close>

definition receive :: "host_env \<Rightarrow> stream_thread \<Rightarrow> stream_thread" where
  "receive env t =
     (if stream t \<noteq> None then
        (case h_get_in_waiting env (hist t) of
           Raises err \<Rightarrow> close (print (log t [InWaiting]) connection_lost_message newline)
         | Returns k \<Rightarrow>
             (let n = (if k = 0 then 1 else k)
              in case h_stream_read env (hist t @ [InWaiting]) n of
                   Raises err \<Rightarrow>
                     close (print (log t [InWaiting, StreamRead n]) connection_lost_message newline)
                 | Returns data \<Rightarrow> log t [InWaiting, StreamRead n, Callback data]))
      else t)"

definition progress :: "string list" where
  "progress = ['' |*-----|'', '' |-*----|'', '' |--*---|'', '' |---*--|'', '' |----*-|'',
               '' |-----*|'']"

definition connected_waiting_message :: string where
  "connected_waiting_message = esc @ ''[42;93mConnected waiting for answer'' @ esc @ ''[m''"

text \<open>\<^verbatim>\<open>is_opened\<close>: always true on a serial stream, an attempt to open on a telnet one.\<close>

definition is_opened :: "host_env \<Rightarrow> stream_class \<Rightarrow> hist \<Rightarrow> bool" where
  "is_opened env c h = (case c of StreamSerial \<Rightarrow> True | StreamTelnet \<Rightarrow> h_telnet_open env h)"

text \<open>The second half of the \<^verbatim>\<open>CONNECTING_TELNET\<close> branch of \<^verbatim>\<open>run\<close>.\<close>

definition connecting_poll :: "host_env \<Rightarrow> stream_thread \<Rightarrow> stream_thread" where
  "connecting_poll env t =
     (case stream t of
        None \<Rightarrow> t\<lparr>state := DISCONNECTED\<rparr>
      | Some c \<Rightarrow>
          if is_opened env c (hist t) then
            (case c of
               StreamTelnet \<Rightarrow>
                 (print (log t [IsOpened]) connected_waiting_message newline)
                   \<lparr>state := TELNET_CONNECTED\<rparr>
             | StreamSerial \<Rightarrow> (log t [IsOpened])\<lparr>state := SERIAL_CONNECTED\<rparr>)
          else
            log ((print (log t [IsOpened]) (progress ! (current t mod length progress)) [CHR 0x0D])
                   \<lparr>current := current t + 1\<rparr>)
              [Sleep 100])"

text \<open>The commands of the connected branch, in the order of the source.\<close>

definition on_connected_command :: "host_env \<Rightarrow> stream_thread \<Rightarrow> command \<Rightarrow> (exn option \<times> stream_thread) option" where
  "on_connected_command env t cmd =
     (case on_write env t cmd of
        None \<Rightarrow> None
      | Some t1 \<Rightarrow>
          (case on_upload_prompt env
                  (on_connect env (on_download_file env (on_upload_file env t1 cmd) cmd) cmd) cmd of
             (Some err, t2) \<Rightarrow> Some (Some err, t2)
           | (None, t2) \<Rightarrow> Some (None, on_quit (on_disconnect t2 cmd) cmd)))"

text \<open>
  One iteration of the loop of \<^verbatim>\<open>run\<close>. The queue holds the commands that the callers
  have sent; no other one arrives later. \<open>None\<close>: the iteration never ends (the queue is
  empty at the blocking \<^verbatim>\<open>command.get()\<close>, or \<^verbatim>\<open>on_write\<close> keeps draining). A
  first component \<open>Some err\<close>: the exception leaves \<^verbatim>\<open>run\<close>.
\<close>

definition run_step :: "host_env \<Rightarrow> stream_thread \<Rightarrow> (exn option \<times> stream_thread) option" where
  "run_step env t =
     (if state t = DISCONNECTED then
        (case command t of
           [] \<Rightarrow> None
         | cmd # q \<Rightarrow>
             Some (None, (on_quit (on_connect env (t\<lparr>command := q\<rparr>) cmd) cmd)
                           \<lparr>state := CONNECTING_TELNET\<rparr>))
      else if state t = CONNECTING_TELNET then
        (case command t of
           [] \<Rightarrow> Some (None, connecting_poll env t)
         | cmd # q \<Rightarrow>
             Some (None, connecting_poll env
                           (on_quit (on_disconnect (on_connect env (t\<lparr>command := q\<rparr>) cmd) cmd) cmd)))
      else
        (case command t of
           [] \<Rightarrow> Some (None, receive env t)
         | cmd # q \<Rightarrow>
             (case on_connected_command env (t\<lparr>command := q\<rparr>) cmd of
                None \<Rightarrow> None
              | Some (Some err, t1) \<Rightarrow> Some (Some err, t1)
              | Some (None, t1) \<Rightarrow> Some (None, receive env t1))))"

text \<open>\<^verbatim>\<open>while self.loop\<close>\<close>

partial_function (option) run :: "host_env \<Rightarrow> stream_thread \<Rightarrow> (exn option \<times> stream_thread) option" where
  "run env t =
     (if loop t then
        (case run_step env t of
           None \<Rightarrow> None
         | Some (Some err, t1) \<Rightarrow> Some (Some err, t1)
         | Some (None, t1) \<Rightarrow> run env t1)
      else Some (None, t))"

declare run.simps [code]

text \<open>The thread as its constructor leaves it, with a queue of commands.\<close>

definition new_thread :: "command list \<Rightarrow> stream_thread" where
  "new_thread q =
     \<lparr>stream = None, state = DISCONNECTED, loop = True, port = PortName [], host = [],
      command = q, current = 0, hist = []\<rparr>"

section \<open>The link between the two sides\<close>

text \<open>
  Modelled from the spec: what an upload session of the host puts in front of the
  receiving device, and \<^verbatim>\<open>exchange.FileReader.read\<close> on that device; the exchange module
  is not among the sources. A file sent by the sender role arrives as one announced file;
  the bytes \<^verbatim>\<open>exit\r\n\<close> written on the stream are the termination command. One call of
  the receiver handles the next item: an announced file is received and stored and the
  call returns true; the termination command makes it return false. The spec bounds the
  wait of the receiver and does not say how a wait ends when nothing is left to read;
  the model raises there, and no statement depends on it.
\<close>

datatype link_item = FileArrives string | TerminationCommand

fun link_event :: "host_event \<Rightarrow> link_item list" where
  "link_event (WriterWrite f d) = [FileArrives f]"
| "link_event (StreamWrite s) =
     (if s = ''exit'' @ [CHR 0x0D, CHR 0x0A] then [TerminationCommand] else [])"
| "link_event ev = []"

definition link_of :: "hist \<Rightarrow> link_item list" where
  "link_of h = concat (map link_event h)"

fun is_file_reader_read :: "dev_event \<Rightarrow> bool" where
  "is_file_reader_read (FileReaderRead c) = True"
| "is_file_reader_read ev = False"

definition file_reader_read :: "link_item list \<Rightarrow> trace \<Rightarrow> string \<Rightarrow> bool outcome" where
  "file_reader_read link tr cwd =
     (case drop (length (filter is_file_reader_read tr)) link of
        FileArrives f # rest \<Rightarrow> Returns True
      | TerminationCommand # rest \<Rightarrow> Returns False
      | [] \<Rightarrow> Raises (Exception ''nothing to read''))"

text \<open>A device whose reads are served from the link.\<close>

definition receiving_device :: "device \<Rightarrow> link_item list \<Rightarrow> device" where
  "receiving_device env link = env\<lparr>reader_read := file_reader_read link\<rparr>"

text \<open>The events that a run of the thread added to the history \<open>h0\<close> it started from.\<close>

definition added :: "hist \<Rightarrow> stream_thread \<Rightarrow> hist" where
  "added h0 t = drop (length h0) (hist t)"

section \<open>Vocabulary of the statements\<close>

text \<open>\<open>k\<close> rounds of the receive loop of \<^verbatim>\<open>upload\<close>: a read, then the watchdog.\<close>

definition rounds :: "string \<Rightarrow> nat \<Rightarrow> trace" where
  "rounds cwd k = concat (replicate k [FileReaderRead cwd, WatchdogFeed])"



text \<open>The number of calls of \<open>send_file\<close> that \<open>show_loop\<close> makes.\<close>

fun show_calls :: "device \<Rightarrow> nat \<Rightarrow> string \<Rightarrow> trace \<Rightarrow> nat" where
  "show_calls env 0 path tr = 0"
| "show_calls env (Suc n) path tr =
     (case send_file env path tr of
        (Raises e, tr1) \<Rightarrow> 1
      | (Returns r, tr1) \<Rightarrow> if r then 1 else Suc (show_calls env n path tr1))"



text \<open>The trace of \<^verbatim>\<open>upload\<close> up to the request, and of \<^verbatim>\<open>download\<close> up to its banner.\<close>

definition upload_start :: "device \<Rightarrow> string \<Rightarrow> bool \<Rightarrow> trace" where
  "upload_start env file recursive =
     [StdoutWrite device_attribute_request, Getch 1000, Print ''Upload to device start'',
      UploadCommandWrite (getcwd env) file recursive]"

definition download_start :: trace where
  "download_start =
     [StdoutWrite device_attribute_request, Getch 1000, Print ''Download from device start'']"



text \<open>
  The pair \<^verbatim>\<open>directory_, pattern_\<close> that \<^verbatim>\<open>on_upload_file\<close> computes from the working
  directory and the request, the test it applies to it, the events of the files it sends
  and the report of a failed write of the termination command.
\<close>

definition upload_target :: "host_env \<Rightarrow> string \<Rightarrow> string \<Rightarrow> string \<Rightarrow> bool \<Rightarrow> string \<times> string" where
  "upload_target env directory path pattern d =
     os_path_split env
       (if d then os_path_normpath env (directory @ ''/'' @ path @ ''/'' @ pattern) @ ''/*''
        else os_path_normpath env (directory @ ''/'' @ path @ ''/'' @ pattern))"

definition sent_files :: "string list \<Rightarrow> string \<Rightarrow> hist" where
  "sent_files filenames directory = map (\<lambda>f. WriterWrite (replace_backslash f) directory) filenames"

definition inside_working_directory :: "host_env \<Rightarrow> hist \<Rightarrow> string \<Rightarrow> string \<Rightarrow> bool" where
  "inside_working_directory env h directory directory' \<longleftrightarrow>
     prefix (os_path_normpath env directory) directory' \<and> os_path_exists env h directory'"


definition upload_error_report :: "unit outcome \<Rightarrow> hist" where
  "upload_error_report r =
     (case r of Returns u \<Rightarrow> [] | Raises err \<Rightarrow> [Callback (''Upload error'' @ newline)])"

section \<open>Example environments\<close>

text \<open>
  A dumb terminal: it answers nothing to the device attribute request. Its filesystem holds
  the directory \<^verbatim>\<open>/lib\<close> and two regular files; every transfer of a file fails.
\<close>

definition plain_terminal :: device where
  "plain_terminal =
     \<lparr>stdout_redirected = None, getch = (\<lambda>tr d. []), getcwd = ''/'',
      command_write = (\<lambda>tr c f r. Returns ()), reader_read = (\<lambda>tr c. Returns False),
      writer_write = (\<lambda>tr p. Returns False),
      fs_fileinfo = (\<lambda>tr p. Returns (if p = ''/lib'' then 0x41ED else 0x81A4)),
      fs_exists = (\<lambda>tr p. True),
      fs_normpath = (\<lambda>p. Returns p), fs_abspath = (\<lambda>c p. Returns (c @ p)),
      fs_isfile = (\<lambda>tr p. Returns False), fs_isdir = (\<lambda>tr p. Returns True),
      fs_split = (\<lambda>p. Returns (p, [])),
      fs_entries = (\<lambda>tr p pat r. Returns [''/a.txt'', ''/b.txt'']),
      log_writable = (\<lambda>tr. True)\<rparr>"

text \<open>The same device in front of CamFlasher, which answers the request.\<close>

definition camflasher_peer :: device where
  "camflasher_peer = plain_terminal\<lparr>getch := (\<lambda>tr d. camflasher_response)\<rparr>"

text \<open>A peer that announces two files and then the end of the session.\<close>

definition patient_peer :: device where
  "patient_peer = camflasher_peer\<lparr>reader_read := (\<lambda>tr c. Returns (length tr < 8))\<rparr>"



definition lost_reader :: device where
  "lost_reader =
     camflasher_peer\<lparr>reader_read :=
       (\<lambda>tr c. if length tr < 6 then Returns True else Raises (Exception ''boom''))\<rparr>"

text \<open>A path that the normalisation rejects.\<close>

definition bad_path :: device where
  "bad_path = camflasher_peer\<lparr>fs_normpath := (\<lambda>p. Raises (Exception ''bad path''))\<rparr>"

text \<open>
  A host whose link and local filesystem behave: the device asks for \<^verbatim>\<open>sub/*.py\<close>, two
  files match. \<open>split_last_slash\<close> serves as \<^verbatim>\<open>os.path.split\<close> on the paths used here.
\<close>

definition split_last_slash :: "string \<Rightarrow> string \<times> string" where
  "split_last_slash p =
     (rev (drop 1 (dropWhile (\<lambda>c. c \<noteq> CHR ''/'') (rev p))),
      rev (takeWhile (\<lambda>c. c \<noteq> CHR ''/'') (rev p)))"

definition quiet_link :: host_env where
  "quiet_link =
     \<lparr>h_serial_open = (\<lambda>h p. Returns ()), h_serial_setup = (\<lambda>h b. Returns ()),
      h_telnet_create = (\<lambda>h a p. Returns ()), h_telnet_open = (\<lambda>h. True),
      h_stream_write = (\<lambda>h d. Returns ()), h_stream_read = (\<lambda>h n. Returns []),
      h_get_in_waiting = (\<lambda>h. Returns 0),
      h_command_read = (\<lambda>h d. Returns (''sub'', ''*.py'', False)),
      h_writer_write = (\<lambda>h f d. Returns ()), h_reader_read = (\<lambda>h d. Returns ()),
      h_upload_prompt = (\<lambda>h f. Returns ()),
      h_isdir = (\<lambda>h p. Returns False),
      h_scandir = (\<lambda>h d p r. Returns [''/home/cam/sub/a.py'', ''/home/cam/sub/b.py'']),
      os_path_normpath = (\<lambda>p. p), os_path_split = split_last_slash,
      os_path_exists = (\<lambda>h p. p = ''/home/cam/sub'')\<rparr>"

text \<open>The same host when nothing matches, and when the requested directory is missing.\<close>

definition no_match :: host_env where
  "no_match = quiet_link\<lparr>h_scandir := (\<lambda>h d p r. Returns [])\<rparr>"

definition missing_directory :: host_env where
  "missing_directory = quiet_link\<lparr>os_path_exists := (\<lambda>h p. False)\<rparr>"

text \<open>A host on which every transfer of a file raises.\<close>

definition failing_writer :: host_env where
  "failing_writer = quiet_link\<lparr>h_writer_write := (\<lambda>h f d. Raises (Exception ''disk error''))\<rparr>"

text \<open>A thread that is connected on a serial port, with a queue of commands.\<close>

definition connected_thread :: "command list \<Rightarrow> stream_thread" where
  "connected_thread q =
     \<lparr>stream = Some StreamSerial, state = SERIAL_CONNECTED, loop = True,
      port = PortName ''/dev/ttyUSB0'', host = [], command = q, current = 0, hist = []\<rparr>"

text \<open>
  Hosts with a failing transport: the port cannot be opened, the control lines cannot be
  set, every write fails (and the requested directory is missing), the input cannot be
  polled, the input cannot be read.
\<close>

definition dead_port :: host_env where
  "dead_port = quiet_link\<lparr>h_serial_open := (\<lambda>h p. Raises (Exception ''could not open port''))\<rparr>"

definition stuck_lines :: host_env where
  "stuck_lines = quiet_link\<lparr>h_serial_setup := (\<lambda>h b. Raises (Exception ''ioctl failed''))\<rparr>"

definition flaky_link :: host_env where
  "flaky_link = missing_directory\<lparr>h_stream_write := (\<lambda>h d. Raises (Exception ''write failed''))\<rparr>"

definition lost_link :: host_env where
  "lost_link = quiet_link\<lparr>h_get_in_waiting := (\<lambda>h. Raises (Exception ''device gone''))\<rparr>"

definition deaf_link :: host_env where
  "deaf_link = quiet_link\<lparr>h_stream_read := (\<lambda>h n. Raises (Exception ''device gone''))\<rparr>"

section \<open>Device side: the handshake gates the transfer commands\<close>

text \<open>
  C1. When the peer does not answer the device attribute request with the CamFlasher
  response within the wait of \<^verbatim>\<open>getch(duration=1000)\<close>, \<open>check_cam_flasher\<close> returns
  false. Whenever it returns false, \<open>upload\<close> and \<open>download\<close> do nothing but print
  the refusal message through \<^verbatim>\<open>print_\<close>: no request is sent, no file is read or
  written, no start-of-file marker goes out.
\<close>

theorem handshake_refusal:
  "(getch env (tr @ [StdoutWrite device_attribute_request]) 1000 \<noteq> camflasher_response
      \<longrightarrow> fst (check_cam_flasher env tr) = False)
   \<and> (fst (check_cam_flasher env []) = False \<longrightarrow>
        upload env file recursive =
          Some (snd (check_cam_flasher env []) @
                shell_print env ''CamFlasher application required for this command'' None)
      \<and> download env file recursive =
          snd (check_cam_flasher env []) @
          shell_print env ''CamFlasher application required for this command'' None
      \<and> filter session_event
          (snd (check_cam_flasher env []) @
           shell_print env ''CamFlasher application required for this command'' None) = [])"
  by (auto simp: check_cam_flasher_def upload_def download_def Let_def shell_print_def
      device_attribute_request_def file_marker_def split: option.splits)

theorem handshake_refusal_witness:
  "getch plain_terminal ([] @ [StdoutWrite device_attribute_request]) 1000 \<noteq> camflasher_response
   \<and> fst (check_cam_flasher plain_terminal []) = False
   \<and> upload plain_terminal ''a.txt'' False =
       Some [StdoutWrite device_attribute_request, Getch 1000,
             Print ''CamFlasher application required for this command'']
   \<and> download plain_terminal ''a.txt'' False =
       [StdoutWrite device_attribute_request, Getch 1000,
        Print ''CamFlasher application required for this command'']"
  using handshake_refusal [of plain_terminal "[]" "''a.txt''" False]
  by (simp add: plain_terminal_def check_cam_flasher_def shell_print_def camflasher_response_def)

section \<open>Device side: directories are skipped by the sender\<close>

text \<open>
  C10. For a path whose mode has the directory bit (\<open>mode AND 0x4000 = 0x4000\<close>),
  \<open>send_file\<close> leaves the trace as it is (no marker, no header, no chunk) and returns
  true, so \<open>show\<close> stops after this first call (\<open>show_calls\<close> is 1) with nothing
  written. Whenever
  \<open>send_file\<close> does write, the path is not a directory, it exists, and the first thing
  written is the start-of-file marker.
\<close>

theorem send_file_directory:
  "(fs_fileinfo env tr path = Returns mode \<and> mode AND 0x4000 = 0x4000 \<longrightarrow>
      send_file env path tr = (Returns True, tr) \<and> show env path tr = (None, tr)
      \<and> show_calls env 3 path tr = 1)
   \<and> (snd (send_file env path tr) \<noteq> tr \<longrightarrow>
      (\<exists>m. fs_fileinfo env tr path = Returns m \<and> m AND 0x4000 \<noteq> 0x4000 \<and> fs_exists env tr path
         \<and> take (Suc (length tr)) (snd (send_file env path tr)) = tr @ [StdoutWrite file_marker]))"
  by (auto simp: send_file_def show_def numeral_3_eq_3 Let_def split: outcome.splits)

theorem send_file_directory_witness:
  "fs_fileinfo plain_terminal [] ''/lib'' = Returns 0x41ED \<and> (0x41ED :: int) AND 0x4000 = 0x4000
   \<and> send_file plain_terminal ''/lib'' [] = (Returns True, [])
   \<and> show plain_terminal ''/lib'' [] = (None, [])
   \<and> show_calls plain_terminal 3 ''/lib'' [] = 1
   \<and> snd (send_file plain_terminal ''/a.txt'' []) \<noteq> []
   \<and> take (Suc 0) (snd (send_file plain_terminal ''/a.txt'' [])) = [StdoutWrite file_marker]"
  using send_file_directory [of plain_terminal "[]" "''/lib''" "0x41ED"]
        send_file_directory [of plain_terminal "[]" "''/a.txt''" "0x81A4"]
  by (simp add: plain_terminal_def send_file_def)

section \<open>Device side: the sender retries a file and goes on\<close>




lemma show_calls_le: "show_calls env n p tr \<le> n"
  by (induction n arbitrary: tr) (auto split: prod.splits outcome.splits)







section \<open>Device side: the upload command\<close>

lemma rounds_Suc: "tr @ rounds c (Suc k) = (tr @ [FileReaderRead c, WatchdogFeed]) @ rounds c k"
  by (simp add: rounds_def)

lemma rounds_Suc_end: "rounds c (Suc k) = rounds c k @ [FileReaderRead c, WatchdogFeed]"
  unfolding rounds_def by (induction k) simp_all

lemma upload_loop_False: "upload_loop env False tr = Some (None, tr)"
  by (subst upload_loop.simps) simp

lemma upload_loop_True:
  "upload_loop env True tr =
     (case reader_read env tr (getcwd env) of
        Raises e \<Rightarrow> Some (Some e, tr @ [FileReaderRead (getcwd env)])
      | Returns r \<Rightarrow> upload_loop env r (tr @ [FileReaderRead (getcwd env), WatchdogFeed]))"
  by (subst upload_loop.simps) simp

lemma upload_loop_rounds:
  "(\<forall>k<n. reader_read env (tr @ rounds (getcwd env) k) (getcwd env) = Returns True) \<Longrightarrow>
   upload_loop env True tr = upload_loop env True (tr @ rounds (getcwd env) n)"
proof (induction n)
  case 0
  show ?case by (simp add: rounds_def)
next
  case (Suc n)
  have "upload_loop env True tr = upload_loop env True (tr @ rounds (getcwd env) n)"
    using Suc by simp
  also have "\<dots> = upload_loop env True ((tr @ rounds (getcwd env) n) @ [FileReaderRead (getcwd env), WatchdogFeed])"
    using Suc.prems by (subst upload_loop_True) simp
  finally show ?case by (simp add: rounds_Suc_end)
qed

lemma upload_loop_ends:
  assumes "\<forall>k<n. reader_read env (tr @ rounds (getcwd env) k) (getcwd env) = Returns True"
    and "reader_read env (tr @ rounds (getcwd env) n) (getcwd env) = Returns False"
  shows "upload_loop env True tr = Some (None, tr @ rounds (getcwd env) (Suc n))"
proof -
  have "upload_loop env True tr = upload_loop env True (tr @ rounds (getcwd env) n)"
    by (rule upload_loop_rounds [OF assms(1)])
  also have "\<dots> = Some (None, tr @ rounds (getcwd env) (Suc n))"
    using assms(2) by (subst upload_loop_True) (simp add: upload_loop_False rounds_Suc_end)
  finally show ?thesis .
qed

lemma upload_loop_raises:
  assumes "\<forall>k<n. reader_read env (tr @ rounds (getcwd env) k) (getcwd env) = Returns True"
    and "reader_read env (tr @ rounds (getcwd env) n) (getcwd env) = Raises err"
  shows "upload_loop env True tr = Some (Some err, tr @ rounds (getcwd env) n @ [FileReaderRead (getcwd env)])"
proof -
  have "upload_loop env True tr = upload_loop env True (tr @ rounds (getcwd env) n)"
    by (rule upload_loop_rounds [OF assms(1)])
  also have "\<dots> = Some (Some err, tr @ rounds (getcwd env) n @ [FileReaderRead (getcwd env)])"
    using assms(2) by (subst upload_loop_True) simp
  finally show ?thesis .
qed

lemma check_cam_flasher_True:
  "stdout_redirected env = None \<Longrightarrow>
   getch env [StdoutWrite device_attribute_request] 1000 = camflasher_response \<Longrightarrow>
   check_cam_flasher env [] = (True, [StdoutWrite device_attribute_request, Getch 1000])"
  by (simp add: check_cam_flasher_def)

lemma upload_rounds_trace:
  assumes "stdout_redirected env = None"
    and "getch env [StdoutWrite device_attribute_request] 1000 = camflasher_response"
    and "command_write env
           [StdoutWrite device_attribute_request, Getch 1000, Print ''Upload to device start'']
           (getcwd env) file recursive = Returns ()"
    and "\<forall>k<n. reader_read env (upload_start env file recursive @ rounds (getcwd env) k) (getcwd env)
           = Returns True"
    and "reader_read env (upload_start env file recursive @ rounds (getcwd env) n) (getcwd env)
           = Returns False"
  shows "upload env file recursive =
           Some (upload_start env file recursive @ rounds (getcwd env) (Suc n) @ [Print ''Upload end''])"
proof -
  have loop: "upload_loop env True (upload_start env file recursive) =
      Some (None, upload_start env file recursive @ rounds (getcwd env) (Suc n))"
    by (rule upload_loop_ends [OF assms(4,5)])
  have "upload_try env file recursive
          [StdoutWrite device_attribute_request, Getch 1000, Print ''Upload to device start''] =
        Some (None, upload_start env file recursive @ rounds (getcwd env) (Suc n) @ [Print ''Upload end''])"
    using assms(1,3) loop by (simp add: upload_try_def upload_start_def shell_print_def)
  then show ?thesis
    using assms(1) check_cam_flasher_True [OF assms(1,2)]
    by (simp add: upload_def shell_print_def)
qed

text \<open>
  C3. After a successful handshake, when the request goes out and the peer's reads return
  true \<open>n\<close> times and then false, \<open>upload\<close> ends, and its trace is exactly: the
  handshake, the banner, the request with the current directory, the pattern and the
  recursive flag, then \<open>n + 1\<close> rounds of a read (which stores the file it receives)
  followed by the watchdog, then \<^verbatim>\<open>Upload end\<close>. The read that returns false is the
  last one.
\<close>

theorem upload_request_then_receive:
  assumes "stdout_redirected env = None"
    and "getch env [StdoutWrite device_attribute_request] 1000 = camflasher_response"
    and "command_write env
           [StdoutWrite device_attribute_request, Getch 1000, Print ''Upload to device start'']
           (getcwd env) file recursive = Returns ()"
    and "\<forall>k<n. reader_read env (upload_start env file recursive @ rounds (getcwd env) k) (getcwd env)
           = Returns True"
    and "reader_read env (upload_start env file recursive @ rounds (getcwd env) n) (getcwd env)
           = Returns False"
  shows "upload env file recursive =
           Some (upload_start env file recursive @ rounds (getcwd env) (Suc n) @ [Print ''Upload end''])"
  using assms by (rule upload_rounds_trace)

theorem upload_request_then_receive_witness:
  "getch patient_peer [StdoutWrite device_attribute_request] 1000 = camflasher_response
   \<and> upload patient_peer ''*.py'' True =
     Some [StdoutWrite device_attribute_request, Getch 1000, Print ''Upload to device start'',
           UploadCommandWrite ''/'' ''*.py'' True,
           FileReaderRead ''/'', WatchdogFeed, FileReaderRead ''/'', WatchdogFeed,
           FileReaderRead ''/'', WatchdogFeed, Print ''Upload end'']"
proof -
  have "\<forall>k<2. reader_read patient_peer (upload_start patient_peer ''*.py'' True @ rounds (getcwd patient_peer) k) (getcwd patient_peer) = Returns True"
    by (simp add: patient_peer_def camflasher_peer_def plain_terminal_def upload_start_def rounds_def less_Suc_eq numeral_2_eq_2)
  moreover have "reader_read patient_peer (upload_start patient_peer ''*.py'' True @ rounds (getcwd patient_peer) 2) (getcwd patient_peer) = Returns False"
    by (simp add: patient_peer_def camflasher_peer_def plain_terminal_def upload_start_def rounds_def numeral_2_eq_2)
  ultimately have "upload patient_peer ''*.py'' True =
      Some (upload_start patient_peer ''*.py'' True @ rounds (getcwd patient_peer) (Suc 2) @ [Print ''Upload end''])"
    by (intro upload_request_then_receive) (simp_all add: patient_peer_def camflasher_peer_def plain_terminal_def)
  then show ?thesis
    by (simp add: upload_start_def rounds_def numeral_2_eq_2 patient_peer_def camflasher_peer_def
        plain_terminal_def)
qed

section \<open>Device side: exceptions of the transfer commands\<close>


section \<open>Host side: the upload session\<close>

lemma find_from_range: "0 \<le> i \<Longrightarrow> find_from s sub i = - 1 \<or> i \<le> find_from s sub i"
proof (induction s arbitrary: i)
  case Nil
  then show ?case by simp
next
  case (Cons c s)
  from Cons.IH [of "i + 1"] Cons.prems show ?case by auto
qed

lemma str_find_0: "str_find s sub = 0 \<longleftrightarrow> prefix sub s"
proof (cases s)
  case Nil
  then show ?thesis by (simp add: str_find_def)
next
  case (Cons c s')
  have "find_from s' sub 1 \<noteq> 0" using find_from_range [of 1 s' sub] by auto
  then show ?thesis using Cons by (simp add: str_find_def)
qed

lemma write_files_returns:
  "\<forall>h'. \<forall>f\<in>set fs. h_writer_write env h' (replace_backslash f) directory = Returns () \<Longrightarrow>
   write_files env fs directory h = (None, h @ sent_files fs directory)"
  by (induction fs arbitrary: h) (simp_all add: sent_files_def)

lemma on_upload_file_try_resolved:
  assumes "h_command_read env h directory = Returns (path, pattern, recursive)"
    and "h_isdir env (h @ [CommandRead directory])
           (os_path_normpath env (directory @ ''/'' @ path @ ''/'' @ pattern)) = Returns d"
    and "upload_target env directory path pattern d = (directory', pattern')"
  shows "on_upload_file_try env strm h directory =
     (if inside_working_directory env (h @ [CommandRead directory]) directory directory'
      then
        (case h_scandir env (h @ [CommandRead directory]) directory' pattern' recursive of
           Raises err \<Rightarrow> (Some err, h @ [CommandRead directory])
         | Returns filenames \<Rightarrow>
             (case write_files env filenames directory (h @ [CommandRead directory]) of
                (Some err, h2) \<Rightarrow> (Some err, h2)
              | (None, h2) \<Rightarrow> stream_write env strm h2 exit_command))
      else
        stream_write env strm
          (h @ [CommandRead directory,
                Callback (not_found_message (os_path_normpath env (path @ ''/'' @ pattern)) @ newline)])
          exit_command)"
  using assms
  by (auto simp: on_upload_file_try_def upload_target_def str_find_0 Let_def
      inside_working_directory_def
      split: outcome.splits prod.splits option.splits if_splits)

lemma stream_write_eq:
  "strm \<noteq> None \<Longrightarrow>
   stream_write env strm h data =
     ((case h_stream_write env h data of Returns u \<Rightarrow> None | Raises err \<Rightarrow> Some err),
      h @ [StreamWrite data])"
  by (simp add: stream_write_def split: outcome.splits)

lemma on_upload_file_hist:
  "hist (on_upload_file env t (CMD_UPLOAD_FILE directory)) =
     snd (on_upload_file_try env (stream t) (hist t) directory) @
     (case fst (on_upload_file_try env (stream t) (hist t) directory) of
        None \<Rightarrow> [] | Some err \<Rightarrow> [Callback (''Upload error'' @ newline)])"
  by (simp add: on_upload_file_def print_def log_def split: prod.splits option.splits)

lemma on_upload_file_frame:
  "state (on_upload_file env t cmd) = state t \<and> stream (on_upload_file env t cmd) = stream t
   \<and> loop (on_upload_file env t cmd) = loop t \<and> command (on_upload_file env t cmd) = command t"
  by (simp add: on_upload_file_def print_def log_def split: command.splits prod.splits option.splits)

lemma upload_found_hist:
  assumes "stream t \<noteq> None"
    and "h_command_read env (hist t) directory = Returns (path, pattern, recursive)"
    and "h_isdir env (hist t @ [CommandRead directory])
           (os_path_normpath env (directory @ ''/'' @ path @ ''/'' @ pattern)) = Returns d"
    and "upload_target env directory path pattern d = (directory', pattern')"
    and "inside_working_directory env (hist t @ [CommandRead directory]) directory directory'"
    and "h_scandir env (hist t @ [CommandRead directory]) directory' pattern' recursive
           = Returns filenames"
    and "\<forall>h'. \<forall>f\<in>set filenames.
           h_writer_write env h' (replace_backslash f) directory = Returns ()"
  shows "hist (on_upload_file env t (CMD_UPLOAD_FILE directory)) =
           hist t @ [CommandRead directory] @ sent_files filenames directory @
           [StreamWrite exit_command] @
           upload_error_report
             (h_stream_write env (hist t @ [CommandRead directory] @ sent_files filenames directory)
                exit_command)"
proof -
  have "on_upload_file_try env (stream t) (hist t) directory =
      stream_write env (stream t) (hist t @ [CommandRead directory] @ sent_files filenames directory)
        exit_command"
    using assms(5,6) write_files_returns [OF assms(7), where h = "hist t @ [CommandRead directory]"]
    by (simp add: on_upload_file_try_resolved [OF assms(2,3,4)])
  then show ?thesis
    by (simp add: on_upload_file_hist stream_write_eq [OF assms(1)] upload_error_report_def
        split: outcome.splits)
qed




lemma reads_of_start: "filter is_file_reader_read (upload_start env f r) = []"
  by (simp add: upload_start_def)

lemma reads_of_rounds: "length (filter is_file_reader_read (rounds c k)) = k"
  by (induction k) (simp_all add: rounds_Suc_end, simp add: rounds_def)

lemma drop_files:
  "k < length fs \<Longrightarrow>
   drop k (map FileArrives fs @ TerminationCommand # rest) =
     FileArrives (fs ! k) # drop (Suc k) (map FileArrives fs @ TerminationCommand # rest)"
proof -
  assume k: "k < length fs"
  then have "k < length (map FileArrives fs @ TerminationCommand # rest)" by simp
  from Cons_nth_drop_Suc [OF this, symmetric] k show ?thesis by (simp add: nth_append)
qed

lemma upload_on_link:
  assumes "stdout_redirected denv = None"
    and "getch denv [StdoutWrite device_attribute_request] 1000 = camflasher_response"
    and "command_write denv
           [StdoutWrite device_attribute_request, Getch 1000, Print ''Upload to device start'']
           (getcwd denv) fname rec = Returns ()"
    and "link = map FileArrives fs @ TerminationCommand # rest"
  shows "upload (receiving_device denv link) fname rec =
           Some (upload_start denv fname rec @ rounds (getcwd denv) (Suc (length fs)) @
                 [Print ''Upload end''])"
proof -
  let ?d = "receiving_device denv link"
  have st: "upload_start ?d fname rec = upload_start denv fname rec" "getcwd ?d = getcwd denv"
    by (simp_all add: receiving_device_def upload_start_def)
  have 1: "stdout_redirected ?d = None" using assms(1) by (simp add: receiving_device_def)
  have 2: "getch ?d [StdoutWrite device_attribute_request] 1000 = camflasher_response"
    using assms(2) by (simp add: receiving_device_def)
  have 3: "command_write ?d
           [StdoutWrite device_attribute_request, Getch 1000, Print ''Upload to device start'']
           (getcwd ?d) fname rec = Returns ()"
    using assms(3) by (simp add: receiving_device_def)
  have rd: "reader_read ?d = file_reader_read link" by (simp add: receiving_device_def)
  have tr: "file_reader_read link (upload_start denv fname rec @ rounds (getcwd denv) k) c
      = Returns True" if "k < length fs" for k c
    using that by (simp add: file_reader_read_def reads_of_start reads_of_rounds assms(4) drop_files
        del: drop_append)
  have fl: "file_reader_read link (upload_start denv fname rec @ rounds (getcwd denv) (length fs)) c
      = Returns False" for c
    by (simp add: file_reader_read_def reads_of_start reads_of_rounds assms(4))
  have 4: "\<forall>k<length fs. reader_read ?d (upload_start ?d fname rec @ rounds (getcwd ?d) k)
             (getcwd ?d) = Returns True"
    by (simp add: rd st tr)
  have 5: "reader_read ?d (upload_start ?d fname rec @ rounds (getcwd ?d) (length fs)) (getcwd ?d)
             = Returns False"
    by (simp add: rd st fl)
  show ?thesis
    using upload_rounds_trace [OF 1 2 3 4 5] by (simp add: st)
qed

lemma link_of_sent_files:
  "link_of (sent_files fs d) = map FileArrives (map replace_backslash fs)"
  by (induction fs) (simp_all add: link_of_def sent_files_def)

lemma link_of_session:
  "link_of ([CommandRead d] @ sent_files fs d @ [StreamWrite (''exit'' @ [CHR 0x0D, CHR 0x0A])]) =
     map FileArrives (map replace_backslash fs) @ [TerminationCommand]"
  using link_of_sent_files [of fs d] by (simp add: link_of_def)

text \<open>
  C4, as the code has it. When no call of the session raises (the request is read, the
  directory test and the enumeration return, each transfer returns) and the resolved
  directory passes the test, the history of \<open>on_upload_file\<close> is: the request read, one
  \<open>FileWriter.write\<close> per enumerated file in order (none, or more), then the write of
  the bytes \<^verbatim>\<open>exit\r\n\<close> on the stream, outside the exchange framing; nothing follows
  unless that write itself raises, and the state of the connection is unchanged. When the
  write returns, the device receives the files and then the termination command: on a
  device whose reads are served from this link, \<open>upload\<close> leaves its receive loop after
  one read per file and one more, and ends with \<^verbatim>\<open>Upload end\<close>, back in the shell.
\<close>

theorem upload_writes_termination:
  assumes "stream t \<noteq> None"
    and "h_command_read env (hist t) directory = Returns (path, pattern, recursive)"
    and "h_isdir env (hist t @ [CommandRead directory])
           (os_path_normpath env (directory @ ''/'' @ path @ ''/'' @ pattern)) = Returns d"
    and "upload_target env directory path pattern d = (directory', pattern')"
    and "inside_working_directory env (hist t @ [CommandRead directory]) directory directory'"
    and "h_scandir env (hist t @ [CommandRead directory]) directory' pattern' recursive
           = Returns filenames"
    and "\<forall>h'. \<forall>f\<in>set filenames.
           h_writer_write env h' (replace_backslash f) directory = Returns ()"
  shows "hist (on_upload_file env t (CMD_UPLOAD_FILE directory)) =
           hist t @ [CommandRead directory] @ sent_files filenames directory @
           [StreamWrite (''exit'' @ [CHR 0x0D, CHR 0x0A])] @
           upload_error_report
             (h_stream_write env (hist t @ [CommandRead directory] @ sent_files filenames directory)
                (''exit'' @ [CHR 0x0D, CHR 0x0A]))
         \<and> state (on_upload_file env t (CMD_UPLOAD_FILE directory)) = state t
         \<and> (h_stream_write env (hist t @ [CommandRead directory] @ sent_files filenames directory)
                (''exit'' @ [CHR 0x0D, CHR 0x0A]) = Returns ()
              \<and> stdout_redirected denv = None
              \<and> getch denv [StdoutWrite device_attribute_request] 1000 = camflasher_response
              \<and> command_write denv
                   [StdoutWrite device_attribute_request, Getch 1000,
                    Print ''Upload to device start'']
                   (getcwd denv) fname rec = Returns ()
              \<longrightarrow>
              link_of (added (hist t) (on_upload_file env t (CMD_UPLOAD_FILE directory))) =
                map FileArrives (map replace_backslash filenames) @ [TerminationCommand]
              \<and> upload
                  (receiving_device denv
                     (link_of (added (hist t) (on_upload_file env t (CMD_UPLOAD_FILE directory)))))
                  fname rec =
                Some (upload_start denv fname rec @
                      rounds (getcwd denv) (Suc (length filenames)) @ [Print ''Upload end'']))"
proof -
  let ?w = "h_stream_write env (hist t @ [CommandRead directory] @ sent_files filenames directory)
              (''exit'' @ [CHR 0x0D, CHR 0x0A])"
  have h: "hist (on_upload_file env t (CMD_UPLOAD_FILE directory)) =
           hist t @ [CommandRead directory] @ sent_files filenames directory @
           [StreamWrite (''exit'' @ [CHR 0x0D, CHR 0x0A])] @ upload_error_report ?w"
    using upload_found_hist [OF assms] by (simp add: exit_command_def)
  have s: "state (on_upload_file env t (CMD_UPLOAD_FILE directory)) = state t"
    using on_upload_file_frame [of env t "CMD_UPLOAD_FILE directory"] by simp
  have r: "link_of (added (hist t) (on_upload_file env t (CMD_UPLOAD_FILE directory))) =
             map FileArrives (map replace_backslash filenames) @ [TerminationCommand]
           \<and> upload
               (receiving_device denv
                  (link_of (added (hist t) (on_upload_file env t (CMD_UPLOAD_FILE directory)))))
               fname rec =
             Some (upload_start denv fname rec @
                   rounds (getcwd denv) (Suc (length filenames)) @ [Print ''Upload end''])"
    if w: "?w = Returns ()"
      and d1: "stdout_redirected denv = None"
      and d2: "getch denv [StdoutWrite device_attribute_request] 1000 = camflasher_response"
      and d3: "command_write denv
                 [StdoutWrite device_attribute_request, Getch 1000, Print ''Upload to device start'']
                 (getcwd denv) fname rec = Returns ()"
  proof -
    have "added (hist t) (on_upload_file env t (CMD_UPLOAD_FILE directory)) =
        [CommandRead directory] @ sent_files filenames directory @
        [StreamWrite (''exit'' @ [CHR 0x0D, CHR 0x0A])]"
      using h w by (simp add: added_def upload_error_report_def)
    then have l: "link_of (added (hist t) (on_upload_file env t (CMD_UPLOAD_FILE directory))) =
        map FileArrives (map replace_backslash filenames) @ [TerminationCommand]"
      using link_of_session [of directory filenames] by simp
    have "upload
            (receiving_device denv
               (map FileArrives (map replace_backslash filenames) @ [TerminationCommand]))
            fname rec =
          Some (upload_start denv fname rec @
                rounds (getcwd denv) (Suc (length (map replace_backslash filenames))) @
                [Print ''Upload end''])"
      by (rule upload_on_link [OF d1 d2 d3]) simp
    then show ?thesis using l by simp
  qed
  show ?thesis using h s r by blast
qed

theorem upload_writes_termination_witness:
  "stream (connected_thread []) \<noteq> None
   \<and> inside_working_directory quiet_link [CommandRead ''/home/cam''] ''/home/cam'' ''/home/cam/sub''
   \<and> hist (on_upload_file quiet_link (connected_thread []) (CMD_UPLOAD_FILE ''/home/cam'')) =
       [CommandRead ''/home/cam'',
        WriterWrite ''/home/cam/sub/a.py'' ''/home/cam'',
        WriterWrite ''/home/cam/sub/b.py'' ''/home/cam'',
        StreamWrite [CHR ''e'', CHR ''x'', CHR ''i'', CHR ''t'', CHR 0x0D, CHR 0x0A]]
   \<and> state (on_upload_file quiet_link (connected_thread []) (CMD_UPLOAD_FILE ''/home/cam''))
       = SERIAL_CONNECTED
   \<and> upload
        (receiving_device camflasher_peer
           (link_of (added [] (on_upload_file quiet_link (connected_thread [])
                                 (CMD_UPLOAD_FILE ''/home/cam'')))))
        ''*.py'' False =
       Some [StdoutWrite device_attribute_request, Getch 1000, Print ''Upload to device start'',
             UploadCommandWrite ''/'' ''*.py'' False,
             FileReaderRead ''/'', WatchdogFeed, FileReaderRead ''/'', WatchdogFeed,
             FileReaderRead ''/'', WatchdogFeed, Print ''Upload end'']"
proof -
  have 1: "stream (connected_thread []) \<noteq> None" by (simp add: connected_thread_def)
  have 2: "h_command_read quiet_link (hist (connected_thread [])) ''/home/cam''
      = Returns (''sub'', ''*.py'', False)"
    by (simp add: quiet_link_def)
  have 3: "h_isdir quiet_link (hist (connected_thread []) @ [CommandRead ''/home/cam''])
      (os_path_normpath quiet_link (''/home/cam'' @ ''/'' @ ''sub'' @ ''/'' @ ''*.py'')) = Returns False"
    by (simp add: quiet_link_def)
  have 4: "upload_target quiet_link ''/home/cam'' ''sub'' ''*.py'' False = (''/home/cam/sub'', ''*.py'')"
    by (simp add: upload_target_def quiet_link_def split_last_slash_def)
  have 5: "inside_working_directory quiet_link
      (hist (connected_thread []) @ [CommandRead ''/home/cam'']) ''/home/cam'' ''/home/cam/sub''"
    by (simp add: inside_working_directory_def quiet_link_def)
  have 6: "h_scandir quiet_link (hist (connected_thread []) @ [CommandRead ''/home/cam''])
      ''/home/cam/sub'' ''*.py'' False = Returns [''/home/cam/sub/a.py'', ''/home/cam/sub/b.py'']"
    by (simp add: quiet_link_def)
  have 7: "\<forall>h'. \<forall>f\<in>set [''/home/cam/sub/a.py'', ''/home/cam/sub/b.py''].
      h_writer_write quiet_link h' (replace_backslash f) ''/home/cam'' = Returns ()"
    by (simp add: quiet_link_def)
  note T = upload_writes_termination [OF 1 2 3 4 5 6 7, where denv = camflasher_peer
             and fname = "''*.py''" and rec = False]
  have h0: "hist (connected_thread []) = []" by (simp add: connected_thread_def)
  have a: "hist (on_upload_file quiet_link (connected_thread []) (CMD_UPLOAD_FILE ''/home/cam'')) =
       [CommandRead ''/home/cam'',
        WriterWrite ''/home/cam/sub/a.py'' ''/home/cam'',
        WriterWrite ''/home/cam/sub/b.py'' ''/home/cam'',
        StreamWrite [CHR ''e'', CHR ''x'', CHR ''i'', CHR ''t'', CHR 0x0D, CHR 0x0A]]"
    using T [THEN conjunct1]
    by (simp add: connected_thread_def sent_files_def replace_backslash_def upload_error_report_def
        quiet_link_def)
  have b: "state (on_upload_file quiet_link (connected_thread []) (CMD_UPLOAD_FILE ''/home/cam''))
       = SERIAL_CONNECTED"
    using T [THEN conjunct2, THEN conjunct1] by (simp add: connected_thread_def)
  have prem: "h_stream_write quiet_link
        (hist (connected_thread []) @ [CommandRead ''/home/cam''] @
         sent_files [''/home/cam/sub/a.py'', ''/home/cam/sub/b.py''] ''/home/cam'')
        (''exit'' @ [CHR 0x0D, CHR 0x0A]) = Returns ()
      \<and> stdout_redirected camflasher_peer = None
      \<and> getch camflasher_peer [StdoutWrite device_attribute_request] 1000 = camflasher_response
      \<and> command_write camflasher_peer
           [StdoutWrite device_attribute_request, Getch 1000, Print ''Upload to device start'']
           (getcwd camflasher_peer) ''*.py'' False = Returns ()"
    by (simp add: quiet_link_def camflasher_peer_def plain_terminal_def)
  have c: "upload
        (receiving_device camflasher_peer
           (link_of (added [] (on_upload_file quiet_link (connected_thread [])
                                 (CMD_UPLOAD_FILE ''/home/cam'')))))
        ''*.py'' False =
       Some [StdoutWrite device_attribute_request, Getch 1000, Print ''Upload to device start'',
             UploadCommandWrite ''/'' ''*.py'' False,
             FileReaderRead ''/'', WatchdogFeed, FileReaderRead ''/'', WatchdogFeed,
             FileReaderRead ''/'', WatchdogFeed, Print ''Upload end'']"
    using T [THEN conjunct2, THEN conjunct2, rule_format, OF prem, THEN conjunct2]
    by (simp add: h0 upload_start_def rounds_def camflasher_peer_def plain_terminal_def)
  show ?thesis using 1 5 a b c by (simp add: connected_thread_def)
qed

text \<open>
  A transfer that raises during the session: \<^verbatim>\<open>Upload error\<close> is reported and nothing
  more is written; the termination command never reaches the device.
\<close>

theorem upload_raise_counterexample:
  "hist (on_upload_file failing_writer (connected_thread []) (CMD_UPLOAD_FILE ''/home/cam'')) =
     [CommandRead ''/home/cam'', WriterWrite ''/home/cam/sub/a.py'' ''/home/cam'',
      Callback (''Upload error'' @ [CHR 0x0A])]
   \<and> link_of (hist (on_upload_file failing_writer (connected_thread [])
                       (CMD_UPLOAD_FILE ''/home/cam''))) =
     [FileArrives ''/home/cam/sub/a.py'']"
  by (simp add: on_upload_file_def on_upload_file_try_def failing_writer_def quiet_link_def
      connected_thread_def split_last_slash_def str_find_0 replace_backslash_def print_def log_def
      newline_def link_of_def)



section \<open>Sessions without files\<close>

text \<open>
  C7. An upload session in which nothing matches. On the host, when the enumeration of
  \<open>on_upload_file\<close> returns no file and the write returns, the history is the request
  read and the write of \<^verbatim>\<open>exit\r\n\<close>: no file is sent and the termination command is
  written all the same. That command is then the only item on the link, so on a device
  whose reads are served from it the first read returns false; \<open>upload\<close> makes this
  single read, stores no file, and ends with \<^verbatim>\<open>Upload end\<close> instead of
  \<^verbatim>\<open>Upload failed\<close>.
\<close>

theorem empty_session_completes:
  assumes "stream t \<noteq> None"
    and "h_command_read env (hist t) directory = Returns (path, pattern, recursive)"
    and "h_isdir env (hist t @ [CommandRead directory])
           (os_path_normpath env (directory @ ''/'' @ path @ ''/'' @ pattern)) = Returns d"
    and "upload_target env directory path pattern d = (directory', pattern')"
    and "inside_working_directory env (hist t @ [CommandRead directory]) directory directory'"
    and "h_scandir env (hist t @ [CommandRead directory]) directory' pattern' recursive = Returns []"
    and "h_stream_write env (hist t @ [CommandRead directory]) (''exit'' @ [CHR 0x0D, CHR 0x0A])
           = Returns ()"
    and "stdout_redirected denv = None"
    and "getch denv [StdoutWrite device_attribute_request] 1000 = camflasher_response"
    and "command_write denv
           [StdoutWrite device_attribute_request, Getch 1000, Print ''Upload to device start'']
           (getcwd denv) fname rec = Returns ()"
  shows "hist (on_upload_file env t (CMD_UPLOAD_FILE directory)) =
           hist t @ [CommandRead directory, StreamWrite (''exit'' @ [CHR 0x0D, CHR 0x0A])]
    \<and> link_of (added (hist t) (on_upload_file env t (CMD_UPLOAD_FILE directory)))
        = [TerminationCommand]
    \<and> reader_read
        (receiving_device denv
           (link_of (added (hist t) (on_upload_file env t (CMD_UPLOAD_FILE directory)))))
        (upload_start denv fname rec) (getcwd denv) = Returns False
    \<and> upload
        (receiving_device denv
           (link_of (added (hist t) (on_upload_file env t (CMD_UPLOAD_FILE directory)))))
        fname rec =
       Some (upload_start denv fname rec @
             [FileReaderRead (getcwd denv), WatchdogFeed, Print ''Upload end''])"
proof -
  have 7: "\<forall>h'. \<forall>f\<in>set []. h_writer_write env h' (replace_backslash f) directory = Returns ()"
    by simp
  have h: "hist (on_upload_file env t (CMD_UPLOAD_FILE directory)) =
           hist t @ [CommandRead directory, StreamWrite (''exit'' @ [CHR 0x0D, CHR 0x0A])]"
    using upload_found_hist [OF assms(1-6) 7] assms(7)
    by (simp add: sent_files_def exit_command_def upload_error_report_def)
  then have l: "link_of (added (hist t) (on_upload_file env t (CMD_UPLOAD_FILE directory)))
      = [TerminationCommand]"
    by (simp add: added_def link_of_def)
  have r: "reader_read (receiving_device denv [TerminationCommand])
      (upload_start denv fname rec) (getcwd denv) = Returns False"
    by (simp add: receiving_device_def file_reader_read_def reads_of_start)
  have u: "upload (receiving_device denv [TerminationCommand]) fname rec =
       Some (upload_start denv fname rec @ rounds (getcwd denv) (Suc (length ([] :: string list))) @
             [Print ''Upload end''])"
    by (rule upload_on_link [OF assms(8,9,10)]) simp
  show ?thesis using h l r u by (simp add: rounds_def)
qed

theorem empty_session_completes_witness:
  "h_scandir no_match [CommandRead ''/home/cam''] ''/home/cam/sub'' ''*.py'' False = Returns []
   \<and> hist (on_upload_file no_match (connected_thread []) (CMD_UPLOAD_FILE ''/home/cam'')) =
       [CommandRead ''/home/cam'',
        StreamWrite [CHR ''e'', CHR ''x'', CHR ''i'', CHR ''t'', CHR 0x0D, CHR 0x0A]]
   \<and> reader_read
        (receiving_device camflasher_peer
           (link_of (added [] (on_upload_file no_match (connected_thread [])
                                 (CMD_UPLOAD_FILE ''/home/cam'')))))
        [StdoutWrite device_attribute_request, Getch 1000, Print ''Upload to device start'',
         UploadCommandWrite ''/'' ''*.py'' False] ''/'' = Returns False
   \<and> upload
        (receiving_device camflasher_peer
           (link_of (added [] (on_upload_file no_match (connected_thread [])
                                 (CMD_UPLOAD_FILE ''/home/cam'')))))
        ''*.py'' False =
       Some [StdoutWrite device_attribute_request, Getch 1000, Print ''Upload to device start'',
             UploadCommandWrite ''/'' ''*.py'' False,
             FileReaderRead ''/'', WatchdogFeed, Print ''Upload end'']"
proof -
  have 1: "stream (connected_thread []) \<noteq> None" by (simp add: connected_thread_def)
  have 2: "h_command_read no_match (hist (connected_thread [])) ''/home/cam''
      = Returns (''sub'', ''*.py'', False)"
    by (simp add: no_match_def quiet_link_def)
  have 3: "h_isdir no_match (hist (connected_thread []) @ [CommandRead ''/home/cam''])
      (os_path_normpath no_match (''/home/cam'' @ ''/'' @ ''sub'' @ ''/'' @ ''*.py'')) = Returns False"
    by (simp add: no_match_def quiet_link_def)
  have 4: "upload_target no_match ''/home/cam'' ''sub'' ''*.py'' False = (''/home/cam/sub'', ''*.py'')"
    by (simp add: upload_target_def no_match_def quiet_link_def split_last_slash_def)
  have 5: "inside_working_directory no_match
      (hist (connected_thread []) @ [CommandRead ''/home/cam'']) ''/home/cam'' ''/home/cam/sub''"
    by (simp add: inside_working_directory_def no_match_def quiet_link_def)
  have 6: "h_scandir no_match (hist (connected_thread []) @ [CommandRead ''/home/cam''])
      ''/home/cam/sub'' ''*.py'' False = Returns []"
    by (simp add: no_match_def quiet_link_def)
  have 7: "h_stream_write no_match (hist (connected_thread []) @ [CommandRead ''/home/cam''])
      (''exit'' @ [CHR 0x0D, CHR 0x0A]) = Returns ()"
    by (simp add: no_match_def quiet_link_def)
  have 8: "stdout_redirected camflasher_peer = None"
    by (simp add: camflasher_peer_def plain_terminal_def)
  have 9: "getch camflasher_peer [StdoutWrite device_attribute_request] 1000 = camflasher_response"
    by (simp add: camflasher_peer_def plain_terminal_def)
  have 10: "command_write camflasher_peer
           [StdoutWrite device_attribute_request, Getch 1000, Print ''Upload to device start'']
           (getcwd camflasher_peer) ''*.py'' False = Returns ()"
    by (simp add: camflasher_peer_def plain_terminal_def)
  have h0: "hist (connected_thread []) = []" "getcwd camflasher_peer = ''/''"
    by (simp_all add: connected_thread_def camflasher_peer_def plain_terminal_def)
  note T = empty_session_completes [OF 1 2 3 4 5 6 7 8 9 10]
  have a: "hist (on_upload_file no_match (connected_thread []) (CMD_UPLOAD_FILE ''/home/cam'')) =
       [CommandRead ''/home/cam'',
        StreamWrite [CHR ''e'', CHR ''x'', CHR ''i'', CHR ''t'', CHR 0x0D, CHR 0x0A]]"
    using T [THEN conjunct1] by (simp add: h0)
  have b: "reader_read
        (receiving_device camflasher_peer
           (link_of (added [] (on_upload_file no_match (connected_thread [])
                                 (CMD_UPLOAD_FILE ''/home/cam'')))))
        [StdoutWrite device_attribute_request, Getch 1000, Print ''Upload to device start'',
         UploadCommandWrite ''/'' ''*.py'' False] ''/'' = Returns False"
    using T [THEN conjunct2, THEN conjunct2, THEN conjunct1] by (simp add: h0 upload_start_def)
  have c: "upload
        (receiving_device camflasher_peer
           (link_of (added [] (on_upload_file no_match (connected_thread [])
                                 (CMD_UPLOAD_FILE ''/home/cam'')))))
        ''*.py'' False =
       Some [StdoutWrite device_attribute_request, Getch 1000, Print ''Upload to device start'',
             UploadCommandWrite ''/'' ''*.py'' False,
             FileReaderRead ''/'', WatchdogFeed, Print ''Upload end'']"
    using T [THEN conjunct2, THEN conjunct2, THEN conjunct2] by (simp add: h0 upload_start_def)
  from 6 have d: "h_scandir no_match [CommandRead ''/home/cam''] ''/home/cam/sub'' ''*.py'' False
      = Returns []"
    by (simp add: h0)
  show ?thesis using a b c d by blast
qed

end
